theory Spec2Isabelle
  imports Complex_Main
begin

section \<open>Values of the program\<close>

text \<open>
  The exceptions that the modelled functions can raise. A failed \<^verbatim>\<open>assert\<close> is
  \<open>AssertionError\<close>, reading index 0 of an empty array is \<open>IndexError\<close>, the Python
  division \<^verbatim>\<open>1 / 0\<close> is \<open>ZeroDivisionError\<close>, and \<^verbatim>\<open>np.max\<close> of an empty array is
  \<open>ValueError\<close>.
\<close>

datatype error = AssertionError | IndexError | ZeroDivisionError | ValueError

text \<open>
  A numpy \<^verbatim>\<open>float64\<close>. Finite values are real numbers (rounding, overflow and underflow
  of the binary format are not modelled); the two infinities and NaN are kept, because
  numpy's division and logarithm return them instead of raising. Zero carries no sign
  and divides as \<open>+0\<close>: every zero divisor that the functions below can form is a sum of
  absolute values or of squares, an element count, or \<^verbatim>\<open>10 ** -inf\<close>, all of them \<open>+0\<close>.
\<close>

datatype fval = Fin real | PInf | NInf | NaN

definition finf :: "real \<Rightarrow> fval" where
  "finf s = (if 0 < s then PInf else if s < 0 then NInf else NaN)"

fun fsign :: "fval \<Rightarrow> real" where
  "fsign (Fin a) = sgn a"
| "fsign PInf = 1"
| "fsign NInf = - 1"
| "fsign NaN = 0"

fun fneg :: "fval \<Rightarrow> fval" where
  "fneg (Fin a) = Fin (- a)"
| "fneg PInf = NInf"
| "fneg NInf = PInf"
| "fneg NaN = NaN"

fun fadd :: "fval \<Rightarrow> fval \<Rightarrow> fval" where
  "fadd (Fin a) (Fin b) = Fin (a + b)"
| "fadd NaN y = NaN"
| "fadd x NaN = NaN"
| "fadd PInf NInf = NaN"
| "fadd NInf PInf = NaN"
| "fadd PInf y = PInf"
| "fadd x PInf = PInf"
| "fadd NInf y = NInf"
| "fadd x NInf = NInf"

definition fsub :: "fval \<Rightarrow> fval \<Rightarrow> fval" where
  "fsub x y = fadd x (fneg y)"

fun fmul :: "fval \<Rightarrow> fval \<Rightarrow> fval" where
  "fmul (Fin a) (Fin b) = Fin (a * b)"
| "fmul NaN y = NaN"
| "fmul x NaN = NaN"
| "fmul x y = finf (fsign x * fsign y)"

fun fdiv :: "fval \<Rightarrow> fval \<Rightarrow> fval" where
  "fdiv (Fin a) (Fin b) = (if b = 0 then finf a else Fin (a / b))"
| "fdiv NaN y = NaN"
| "fdiv x NaN = NaN"
| "fdiv (Fin a) y = Fin 0"
| "fdiv x (Fin b) = (if b < 0 then fneg x else x)"
| "fdiv x y = NaN"

text \<open>\<^verbatim>\<open>x > y\<close> on floats: false as soon as one side is NaN.\<close>

fun fgt :: "fval \<Rightarrow> fval \<Rightarrow> bool" where
  "fgt (Fin a) (Fin b) = (b < a)"
| "fgt NaN y = False"
| "fgt x NaN = False"
| "fgt PInf PInf = False"
| "fgt PInf y = True"
| "fgt x PInf = False"
| "fgt NInf y = False"
| "fgt x NInf = True"

text \<open>\<^verbatim>\<open>np.log10\<close>, \<^verbatim>\<open>np.log\<close>, \<^verbatim>\<open>np.sqrt\<close>, \<^verbatim>\<open>np.floor\<close>, \<^verbatim>\<open>np.ceil\<close> and \<^verbatim>\<open>10 ** x\<close>.\<close>

fun flog10 :: "fval \<Rightarrow> fval" where
  "flog10 (Fin a) = (if 0 < a then Fin (log 10 a) else if a = 0 then NInf else NaN)"
| "flog10 PInf = PInf"
| "flog10 NInf = NaN"
| "flog10 NaN = NaN"


fun fsqrt :: "fval \<Rightarrow> fval" where
  "fsqrt (Fin a) = (if 0 \<le> a then Fin (sqrt a) else NaN)"
| "fsqrt PInf = PInf"
| "fsqrt NInf = NaN"
| "fsqrt NaN = NaN"




text \<open>\<^verbatim>\<open>np.sum\<close> of an array of floats that may hold infinities or NaN.\<close>

definition np_sum :: "fval list \<Rightarrow> fval" where
  "np_sum vs = foldr fadd vs (Fin 0)"

text \<open>
  \<^verbatim>\<open>np.std\<close> with its default \<^verbatim>\<open>ddof = 0\<close>, as numpy computes it: the mean is the
  sum over the count, the deviations are multiplied by themselves, their sum is divided
  by \<^verbatim>\<open>max (count - ddof) 0\<close>, and the square root is taken.
\<close>

definition np_std :: "fval list \<Rightarrow> fval" where
  "np_std vs =
     (let ddof = 0;
          rcount = length vs;
          arrmean = fdiv (np_sum vs) (Fin (real rcount));
          x = map (\<lambda>v. fsub v arrmean) vs;
          x = map (\<lambda>d. fmul d d) x;
          ret = fdiv (np_sum x) (Fin (real (max (rcount - ddof) 0)))
      in fsqrt ret)"

text \<open>
  \<^verbatim>\<open>np.round\<close> rounds to the nearest integer and a tie to the even neighbour;
  \<^verbatim>\<open>int\<close> then reads the result as an integer.
\<close>

definition np_round :: "real \<Rightarrow> int" where
  "np_round x =
     (let f = \<lfloor>x\<rfloor>; r = x - of_int f
      in if r < 1 / 2 then f
         else if 1 / 2 < r then f + 1
         else if even f then f else f + 1)"

text \<open>
  A two-dimensional array: its rows, and the row length, which \<^verbatim>\<open>np.shape\<close> reports
  also when there is no row.
\<close>

record array2d =
  ncols :: nat
  rows :: "real list list"

definition wf_array2d :: "array2d \<Rightarrow> bool" where
  "wf_array2d a = list_all (\<lambda>r. length r = ncols a) (rows a)"

definition shape :: "array2d \<Rightarrow> nat \<times> nat" where
  "shape a = (length (rows a), ncols a)"

text \<open>Elementwise difference of two arrays of one length.\<close>

definition arr_sub :: "real list \<Rightarrow> real list \<Rightarrow> real list" where
  "arr_sub xs ys = map2 (-) xs ys"

text \<open>
  The loop \<^verbatim>\<open>for d in range(n): out[d] = f(d)\<close> that fills a fresh array; the first
  exception leaves the loop.
\<close>

fun fill_range :: "(nat \<Rightarrow> error + fval) \<Rightarrow> nat list \<Rightarrow> error + fval list" where
  "fill_range f [] = Inr []"
| "fill_range f (d # ds) =
     (case f d of
        Inl e \<Rightarrow> Inl e
      | Inr v \<Rightarrow> (case fill_range f ds of Inl e \<Rightarrow> Inl e | Inr vs \<Rightarrow> Inr (v # vs)))"


section \<open>The SNR functions (include/comparison_tools/SNR.py)\<close>

definition SignaltoNoiseRatio :: "real list \<Rightarrow> real list \<Rightarrow> error + fval" where
  "SignaltoNoiseRatio groundTruth estimation =
     (let normOrder = 2 :: nat in
      if length groundTruth \<noteq> length estimation then Inl AssertionError
      else
        let errorMean =
              fdiv (Fin (sum_list (map abs (arr_sub (drop 1 estimation) (drop 1 groundTruth)))))
                   (Fin (of_int (int (length groundTruth) - 1)))
        in if estimation = [] then Inl IndexError
           else
             let SquaredError =
                   (if fgt (fdiv (Fin (estimation ! 0 - groundTruth ! 0)) errorMean) (Fin 100000)
                    then sum_list (map (\<lambda>x. \<bar>x\<bar> ^ normOrder)
                                    (arr_sub (drop 1 estimation) (drop 1 groundTruth)))
                    else sum_list (map (\<lambda>x. \<bar>x\<bar> ^ normOrder) (arr_sub estimation groundTruth)))
             in Inr (fmul (Fin 10)
                      (flog10 (fdiv (Fin (sum_list (map (\<lambda>x. \<bar>x\<bar> ^ normOrder) groundTruth)))
                                    (Fin SquaredError)))))"

definition SignaltoNoiseRatioMC :: "real list \<Rightarrow> array2d \<Rightarrow> error + fval \<times> fval" where
  "SignaltoNoiseRatioMC groundTruth estimations =
     (let (nbDraws, days) = shape estimations in
      if days \<noteq> length groundTruth then Inl AssertionError
      else
        case fill_range (\<lambda>draw. SignaltoNoiseRatio groundTruth (rows estimations ! draw))
               [0..<nbDraws] of
          Inl e \<Rightarrow> Inl e
        | Inr SNREstim \<Rightarrow>
            if nbDraws = 0 then Inl ZeroDivisionError
            else Inr (fmul (Fin (1 / real nbDraws)) (np_sum SNREstim),
                      fmul (fdiv (Fin 1.96) (fsqrt (Fin (real nbDraws)))) (np_std SNREstim)))"

definition SNRByDep_indic :: "array2d \<Rightarrow> array2d \<Rightarrow> error + fval list" where
  "SNRByDep_indic groundTruth estimation =
     (let (nbDeps, days) = shape estimation in
      if nbDeps \<noteq> fst (shape groundTruth) then Inl AssertionError
      else if days \<noteq> snd (shape groundTruth) then Inl AssertionError
      else fill_range (\<lambda>d. SignaltoNoiseRatio (rows groundTruth ! d) (rows estimation ! d))
             [0..<nbDeps])"

definition SNRMean_indic :: "array2d \<Rightarrow> array2d \<Rightarrow> error + fval" where
  "SNRMean_indic groundTruth estimation =
     (let (nbDeps, days) = shape estimation in
      if nbDeps \<noteq> fst (shape groundTruth) then Inl AssertionError
      else if days \<noteq> snd (shape groundTruth) then Inl AssertionError
      else
        case SNRByDep_indic groundTruth estimation of
          Inl e \<Rightarrow> Inl e
        | Inr indicatorsByDep \<Rightarrow>
            if length indicatorsByDep \<noteq> nbDeps then Inl AssertionError
            else if nbDeps = 0 then Inl ZeroDivisionError
            else Inr (fmul (Fin (1 / real nbDeps)) (np_sum indicatorsByDep)))"


section \<open>The axis helpers (display/formattingFigures.py)\<close>







section \<open>The SNR formula in the words of the specification\<close>

text \<open>
  The specification describes the result of \<open>SignaltoNoiseRatio\<close> by sums over index
  ranges. \<open>SNR_claimed\<close> follows its words: the outlier test takes the absolute
  difference at index 0. \<open>SNR_signed\<close> differs in that one place and takes the signed
  difference \<open>estimation[0] - groundTruth[0]\<close>. Both are compared with the function
  translated from the code.
\<close>

definition SNR_claimed :: "real list \<Rightarrow> real list \<Rightarrow> fval" where
  "SNR_claimed groundTruth estimation =
     (let N = length groundTruth;
          errorMean = (\<Sum>i = 1..<N. \<bar>estimation ! i - groundTruth ! i\<bar>) / real (N - 1);
          squaredError =
            (if fgt (fdiv (Fin \<bar>estimation ! 0 - groundTruth ! 0\<bar>) (Fin errorMean)) (Fin 100000)
             then \<Sum>i = 1..<N. \<bar>estimation ! i - groundTruth ! i\<bar> ^ 2
             else \<Sum>i = 0..<N. \<bar>estimation ! i - groundTruth ! i\<bar> ^ 2)
      in fmul (Fin 10)
           (flog10 (fdiv (Fin (\<Sum>i = 0..<N. \<bar>groundTruth ! i\<bar> ^ 2)) (Fin squaredError))))"

definition SNR_signed :: "real list \<Rightarrow> real list \<Rightarrow> fval" where
  "SNR_signed groundTruth estimation =
     (let N = length groundTruth;
          errorMean = (\<Sum>i = 1..<N. \<bar>estimation ! i - groundTruth ! i\<bar>) / real (N - 1);
          squaredError =
            (if fgt (fdiv (Fin (estimation ! 0 - groundTruth ! 0)) (Fin errorMean)) (Fin 100000)
             then \<Sum>i = 1..<N. \<bar>estimation ! i - groundTruth ! i\<bar> ^ 2
             else \<Sum>i = 0..<N. \<bar>estimation ! i - groundTruth ! i\<bar> ^ 2)
      in fmul (Fin 10)
           (flog10 (fdiv (Fin (\<Sum>i = 0..<N. \<bar>groundTruth ! i\<bar> ^ 2)) (Fin squaredError))))"


section \<open>Mean and standard deviation in the words of the specification\<close>

text \<open>
  The arithmetic mean of a sequence of floats is their sum divided by their number; the
  population standard deviation is the square root of the arithmetic mean of the
  squared deviations from the mean (divisor: the number of values).
\<close>

definition arith_mean :: "fval list \<Rightarrow> fval" where
  "arith_mean vs = fdiv (np_sum vs) (Fin (real (length vs)))"

definition population_std :: "fval list \<Rightarrow> fval" where
  "population_std vs =
     fsqrt (arith_mean (map (\<lambda>v. fmul (fsub v (arith_mean vs)) (fsub v (arith_mean vs))) vs))"


section \<open>Helper facts\<close>

lemma log10_4_pos: "0 < log 10 (4::real)"
  by (simp add: zero_less_log_cancel_iff)

text \<open>Sums over numpy slices, written as sums over index ranges.\<close>

lemma sum_list_arr_sub:
  assumes "length xs = length ys"
  shows "sum_list (map f (arr_sub xs ys)) = (\<Sum>i = 0..<length xs. f (xs ! i - ys ! i))"
proof -
  have "sum_list (map f (arr_sub xs ys))
      = (\<Sum>i = 0..<length (arr_sub xs ys). map f (arr_sub xs ys) ! i)"
    by (simp add: sum_list_sum_nth)
  also have "\<dots> = (\<Sum>i = 0..<length xs. f (xs ! i - ys ! i))"
    using assms by (intro sum.cong) (simp_all add: arr_sub_def)
  finally show ?thesis .
qed

lemma sum_list_arr_sub_tail:
  assumes "length xs = length ys"
  shows "sum_list (map f (arr_sub (drop 1 xs) (drop 1 ys)))
       = (\<Sum>i = 1..<length xs. f (xs ! i - ys ! i))"
proof (cases xs)
  case Nil
  with assms show ?thesis by (simp add: arr_sub_def)
next
  case (Cons x xs')
  then obtain y ys' where ys: "ys = y # ys'" and len: "length xs' = length ys'"
    using assms by (cases ys) auto
  have "sum_list (map f (arr_sub xs' ys')) = (\<Sum>i = 0..<length xs'. f (xs' ! i - ys' ! i))"
    using len by (rule sum_list_arr_sub)
  also have "\<dots> = (\<Sum>i = 0..<length xs'. f ((x # xs') ! Suc i - (y # ys') ! Suc i))"
    by simp
  also have "\<dots> = (\<Sum>i = Suc 0..<Suc (length xs'). f ((x # xs') ! i - (y # ys') ! i))"
    by (rule sum.shift_bounds_Suc_ivl [symmetric])
  finally show ?thesis
    using Cons ys by simp
qed

lemma sum_list_map_nth: "sum_list (map f xs) = (\<Sum>i = 0..<length xs. f (xs ! i))"
  by (simp add: sum_list_sum_nth)


section \<open>The length check of SignaltoNoiseRatio\<close>

text \<open>
  C4. \<open>SignaltoNoiseRatio\<close> ends with the length-mismatch error (the failed assertion
  on the two lengths) exactly when the two series differ in length. The error is the
  whole outcome of the call, so no number is returned with it, and inputs of equal
  length never produce it.
\<close>

theorem SignaltoNoiseRatio_length_mismatch:
  "SignaltoNoiseRatio groundTruth estimation = Inl AssertionError
     \<longleftrightarrow> length groundTruth \<noteq> length estimation"
  by (simp add: SignaltoNoiseRatio_def Let_def)

theorem SignaltoNoiseRatio_length_mismatch_witness:
  "SignaltoNoiseRatio [1, 2] [1] = Inl AssertionError
     \<and> SignaltoNoiseRatio [1, 2] [1, 3] \<noteq> Inl AssertionError"
  using SignaltoNoiseRatio_length_mismatch [of "[1, 2]" "[1]"]
        SignaltoNoiseRatio_length_mismatch [of "[1, 2]" "[1, 3]"]
  by simp


section \<open>SignaltoNoiseRatio is not symmetric\<close>

text \<open>
  C9. There are two series of one length, with different signal power, for which
  swapping the arguments of \<open>SignaltoNoiseRatio\<close> changes the result: the ground truth
  \<open>[1, 1]\<close> against the estimation \<open>[2, 2]\<close> gives 0 dB, the other way round
  \<open>10 * log10 4\<close> dB.
\<close>

theorem SignaltoNoiseRatio_not_symmetric:
  "\<exists>a b. length a = length b
      \<and> sum_list (map (\<lambda>x. \<bar>x\<bar> ^ 2) a) \<noteq> sum_list (map (\<lambda>x. \<bar>x\<bar> ^ 2) b)
      \<and> SignaltoNoiseRatio a b \<noteq> SignaltoNoiseRatio b a"
proof -
  have ab: "SignaltoNoiseRatio [1, 1] [2, 2] = Inr (Fin 0)"
    by (simp add: SignaltoNoiseRatio_def arr_sub_def)
  have ba: "SignaltoNoiseRatio [2, 2] [1, 1] = Inr (Fin (10 * log 10 4))"
    by (simp add: SignaltoNoiseRatio_def arr_sub_def)
  have "log 10 4 \<noteq> (0::real)"
    using log10_4_pos by linarith
  with ab ba have "SignaltoNoiseRatio [1, 1] [2, 2] \<noteq> SignaltoNoiseRatio [2, 2] [1, 1]"
    by simp
  moreover have "sum_list (map (\<lambda>x. \<bar>x\<bar> ^ 2) [1, 1 :: real])
      \<noteq> sum_list (map (\<lambda>x. \<bar>x\<bar> ^ 2) [2, 2])"
    by simp
  ultimately show ?thesis
    by (intro exI [of _ "[1, 1]"] exI [of _ "[2, 2]"]) simp
qed


section \<open>The value computed by SignaltoNoiseRatio\<close>

text \<open>
  C1, as the specification words it, fails: the code divides the signed difference
  \<open>estimation[0] - groundTruth[0]\<close> by \<open>errorMean\<close>, not its absolute value. With ground
  truth \<open>[0, 1]\<close> and estimation \<open>[-1000000, 2]\<close> the absolute difference at index 0 is
  a million times \<open>errorMean\<close>, so the claimed formula drops index 0 and gives 0 dB,
  while the code keeps index 0 and returns \<open>10 * log10 (1 / 1000000000001)\<close>.
\<close>

theorem SignaltoNoiseRatio_abs_outlier_counterexample:
  "SignaltoNoiseRatio [0, 1] [- 1000000, 2] \<noteq> Inr (SNR_claimed [0, 1] [- 1000000, 2])"
proof -
  have s1: "{1..<2::nat} = {1}" by auto
  have s0: "{0..<2::nat} = {0, 1}" by auto
  have c: "SNR_claimed [0, 1] [- 1000000, 2] = Fin 0"
    by (simp add: SNR_claimed_def s1 s0)
  have d: "SignaltoNoiseRatio [0, 1] [- 1000000, 2]
         = Inr (Fin (10 * log 10 (1 / 1000000000001)))"
    by (simp add: SignaltoNoiseRatio_def arr_sub_def)
  have "log 10 (1 / 1000000000001) < (0::real)"
    by (simp add: log_less_zero_cancel_iff)
  then have "log 10 (1 / 1000000000001) \<noteq> (0::real)"
    by linarith
  with c d show ?thesis by simp
qed

text \<open>
  C1, amended: for two series of equal length \<open>N \<ge> 2\<close>, \<open>SignaltoNoiseRatio\<close> returns
  \<open>10 * log10 (sum |groundTruth[i]|^2 / squaredError)\<close>, where \<open>errorMean\<close> is the mean
  absolute difference over the indices \<open>[1, N)\<close> and \<open>squaredError\<close> is the sum of the
  squared absolute differences over \<open>[1, N)\<close> when the signed difference
  \<open>estimation[0] - groundTruth[0]\<close> divided by \<open>errorMean\<close> exceeds 100000, and over
  \<open>[0, N)\<close> otherwise. Division, comparison and logarithm are those of floats.
\<close>

theorem SignaltoNoiseRatio_signed_outlier:
  assumes "length groundTruth = length estimation" and "2 \<le> length groundTruth"
  shows "SignaltoNoiseRatio groundTruth estimation = Inr (SNR_signed groundTruth estimation)"
proof -
  have ne: "estimation \<noteq> []"
    using assms by auto
  have div: "real_of_int (int (length groundTruth) - 1) = real (length groundTruth - 1)"
    using assms by (simp add: of_nat_diff)
  have nz: "real (length groundTruth - 1) \<noteq> 0"
    using assms by simp
  have em: "fdiv (Fin (sum_list (map abs (arr_sub (drop 1 estimation) (drop 1 groundTruth)))))
                 (Fin (real_of_int (int (length groundTruth) - 1)))
          = Fin ((\<Sum>i = 1..<length groundTruth. \<bar>estimation ! i - groundTruth ! i\<bar>)
                 / real (length groundTruth - 1))"
    using assms nz sum_list_arr_sub_tail [of estimation groundTruth abs] by (simp add: div)
  have tl: "sum_list (map (\<lambda>x. \<bar>x\<bar> ^ 2) (arr_sub (drop 1 estimation) (drop 1 groundTruth)))
          = (\<Sum>i = 1..<length groundTruth. \<bar>estimation ! i - groundTruth ! i\<bar> ^ 2)"
    using assms sum_list_arr_sub_tail [of estimation groundTruth "\<lambda>x. \<bar>x\<bar> ^ 2"] by simp
  have al: "sum_list (map (\<lambda>x. \<bar>x\<bar> ^ 2) (arr_sub estimation groundTruth))
          = (\<Sum>i = 0..<length groundTruth. \<bar>estimation ! i - groundTruth ! i\<bar> ^ 2)"
    using assms sum_list_arr_sub [of estimation groundTruth "\<lambda>x. \<bar>x\<bar> ^ 2"] by simp
  have sg: "sum_list (map (\<lambda>x. \<bar>x\<bar> ^ 2) groundTruth)
          = (\<Sum>i = 0..<length groundTruth. \<bar>groundTruth ! i\<bar> ^ 2)"
    by (rule sum_list_map_nth)
  show ?thesis
    unfolding SignaltoNoiseRatio_def SNR_signed_def Let_def em tl al sg
    using assms ne by simp
qed

theorem SignaltoNoiseRatio_signed_outlier_witness:
  "length [0, 1 :: real] = length [1000000, 2 :: real] \<and> 2 \<le> length [0, 1 :: real]
     \<and> SignaltoNoiseRatio [0, 1] [1000000, 2] = Inr (SNR_signed [0, 1] [1000000, 2])
     \<and> SignaltoNoiseRatio [0, 1] [1000000, 2] = Inr (Fin 0)"
proof -
  have "SignaltoNoiseRatio [0, 1] [1000000, 2] = Inr (Fin 0)"
    by (simp add: SignaltoNoiseRatio_def arr_sub_def)
  then show ?thesis
    using SignaltoNoiseRatio_signed_outlier [of "[0, 1]" "[1000000, 2]"] by simp
qed


section \<open>Monte-Carlo aggregation\<close>

lemma fill_range_Inr:
  "(\<And>d. d \<in> set ds \<Longrightarrow> f d = Inr (g d)) \<Longrightarrow> fill_range f ds = Inr (map g ds)"
  by (induction ds) simp_all

lemma SignaltoNoiseRatio_returns:
  assumes "length groundTruth = length estimation" and "estimation \<noteq> []"
  shows "SignaltoNoiseRatio groundTruth estimation
       = Inr (projr (SignaltoNoiseRatio groundTruth estimation))"
  using assms by (simp add: SignaltoNoiseRatio_def Let_def)

lemma fmul_inverse_count:
  "0 < c \<Longrightarrow> fmul (Fin (1 / c)) x = fdiv x (Fin c)"
  by (cases x) (simp_all add: finf_def)

lemma np_sum_Fin: "np_sum (map Fin xs) = Fin (sum_list xs)"
  by (induction xs) (simp_all add: np_sum_def)

lemma np_std_population: "np_std vs = population_std vs"
  by (simp add: np_std_def population_std_def arith_mean_def Let_def comp_def)

lemma arith_mean_Fin:
  "xs \<noteq> [] \<Longrightarrow> arith_mean (map Fin xs) = Fin (sum_list xs / real (length xs))"
  by (simp add: arith_mean_def np_sum_Fin)

lemma population_std_Fin:
  assumes "xs \<noteq> []"
  shows "population_std (map Fin xs)
       = Fin (sqrt ((\<Sum>x\<leftarrow>xs. (x - sum_list xs / real (length xs)) ^ 2) / real (length xs)))"
proof -
  let ?mu = "sum_list xs / real (length xs)"
  have m: "arith_mean (map Fin xs) = Fin ?mu"
    using assms by (rule arith_mean_Fin)
  have e: "map (\<lambda>v. fmul (fsub v (Fin ?mu)) (fsub v (Fin ?mu))) (map Fin xs)
      = map Fin (map (\<lambda>x. (x - ?mu) ^ 2) xs)"
    by (simp add: fsub_def power2_eq_square)
  have "arith_mean (map (\<lambda>v. fmul (fsub v (Fin ?mu)) (fsub v (Fin ?mu))) (map Fin xs))
      = Fin ((\<Sum>x\<leftarrow>xs. (x - ?mu) ^ 2) / real (length xs))"
    unfolding e by (subst arith_mean_Fin) (use assms in simp_all)
  moreover have "0 \<le> (\<Sum>x\<leftarrow>xs. (x - ?mu) ^ 2) / real (length xs)"
    by (intro divide_nonneg_nonneg sum_list_nonneg) auto
  ultimately show ?thesis
    unfolding population_std_def m by simp
qed

text \<open>
  C3. For a ground truth of length \<open>N \<ge> 2\<close> and \<open>M \<ge> 1\<close> draws of length \<open>N\<close>, every
  draw has an SNR value, \<open>meanSNR\<close> is the arithmetic mean of these values and
  \<open>errorSNR\<close> is \<open>1.96 / sqrt M\<close> times their population standard deviation. When the
  values are all finite, that is the real number
  \<open>1.96 / sqrt M * sqrt (sum (x - mean)^2 / M)\<close>: the divisor is \<open>M\<close>, not \<open>M - 1\<close>.
\<close>

theorem SignaltoNoiseRatioMC_mean_and_std:
  assumes wf: "wf_array2d estimations"
    and days: "ncols estimations = length groundTruth"
    and N: "2 \<le> length groundTruth"
    and M: "1 \<le> length (rows estimations)"
  shows "\<exists>snrs. length snrs = length (rows estimations)
      \<and> (\<forall>draw < length (rows estimations).
            SignaltoNoiseRatio groundTruth (rows estimations ! draw) = Inr (snrs ! draw))
      \<and> SignaltoNoiseRatioMC groundTruth estimations
          = Inr (arith_mean snrs,
                 fmul (Fin (1.96 / sqrt (real (length (rows estimations)))))
                      (population_std snrs))
      \<and> (\<forall>xs. snrs = map Fin xs \<longrightarrow>
            SignaltoNoiseRatioMC groundTruth estimations
              = Inr (Fin (sum_list xs / real (length xs)),
                     Fin (1.96 / sqrt (real (length xs))
                          * sqrt ((\<Sum>x\<leftarrow>xs. (x - sum_list xs / real (length xs)) ^ 2)
                                  / real (length xs)))))"
proof -
  let ?M = "length (rows estimations)"
  let ?f = "\<lambda>draw. SignaltoNoiseRatio groundTruth (rows estimations ! draw)"
  let ?snrs = "map (\<lambda>draw. projr (?f draw)) [0..<?M]"
  have row: "?f draw = Inr (projr (?f draw))" if "draw < ?M" for draw
  proof -
    have "rows estimations ! draw \<in> set (rows estimations)"
      using that by simp
    then have "length (rows estimations ! draw) = length groundTruth"
      using wf days by (simp add: wf_array2d_def list_all_iff)
    then show ?thesis
      using N by (intro SignaltoNoiseRatio_returns) auto
  qed
  then have loop: "fill_range ?f [0..<?M] = Inr ?snrs"
    by (intro fill_range_Inr) simp
  have Mpos: "0 < real ?M" and M0: "?M \<noteq> 0"
    using M by auto
  have sq: "fdiv (Fin 1.96) (fsqrt (Fin (real ?M))) = Fin (1.96 / sqrt (real ?M))"
    using Mpos by simp
  have mc: "SignaltoNoiseRatioMC groundTruth estimations
      = Inr (arith_mean ?snrs, fmul (Fin (1.96 / sqrt (real ?M))) (population_std ?snrs))"
    unfolding SignaltoNoiseRatioMC_def shape_def
    using days M0 Mpos
    by (simp add: loop sq fmul_inverse_count np_std_population arith_mean_def)
  have fin: "SignaltoNoiseRatioMC groundTruth estimations
        = Inr (Fin (sum_list xs / real (length xs)),
               Fin (1.96 / sqrt (real (length xs))
                    * sqrt ((\<Sum>x\<leftarrow>xs. (x - sum_list xs / real (length xs)) ^ 2)
                            / real (length xs))))"
    if eq: "?snrs = map Fin xs" for xs
  proof -
    have len: "length xs = ?M"
      using arg_cong [OF eq, of length] by simp
    then have ne: "xs \<noteq> []"
      using M0 by auto
    show ?thesis
      unfolding mc eq arith_mean_Fin [OF ne] population_std_Fin [OF ne] len by simp
  qed
  show ?thesis
  proof (intro exI [of _ ?snrs] conjI allI impI)
    show "length ?snrs = ?M" by simp
    show "?f draw = Inr (?snrs ! draw)" if "draw < ?M" for draw
      using row [OF that] that by simp
    show "SignaltoNoiseRatioMC groundTruth estimations
      = Inr (arith_mean ?snrs, fmul (Fin (1.96 / sqrt (real ?M))) (population_std ?snrs))"
      by (rule mc)
    show "SignaltoNoiseRatioMC groundTruth estimations
        = Inr (Fin (sum_list xs / real (length xs)),
               Fin (1.96 / sqrt (real (length xs))
                    * sqrt ((\<Sum>x\<leftarrow>xs. (x - sum_list xs / real (length xs)) ^ 2)
                            / real (length xs))))"
      if "?snrs = map Fin xs" for xs
      using that by (rule fin)
  qed
qed


theorem SignaltoNoiseRatioMC_mean_and_std_witness:
  "wf_array2d \<lparr>ncols = 2, rows = [[2, 2], [3, 3]]\<rparr>
     \<and> ncols \<lparr>ncols = 2, rows = [[2, 2], [3, 3]]\<rparr> = length [1, 1 :: real]
     \<and> 2 \<le> length [1, 1 :: real]
     \<and> 1 \<le> length (rows \<lparr>ncols = 2, rows = [[2, 2], [3, 3]]\<rparr>)
     \<and> (\<exists>snrs. length snrs = 2
           \<and> SignaltoNoiseRatio [1, 1] [2, 2] = Inr (snrs ! 0)
           \<and> SignaltoNoiseRatio [1, 1] [3, 3] = Inr (snrs ! 1)
           \<and> SignaltoNoiseRatioMC [1, 1] \<lparr>ncols = 2, rows = [[2, 2], [3, 3]]\<rparr>
               = Inr (arith_mean snrs, fmul (Fin (1.96 / sqrt 2)) (population_std snrs)))"
proof -
  let ?E = "\<lparr>ncols = 2, rows = [[2, 2], [3, 3 :: real]]\<rparr>"
  have h: "wf_array2d ?E"
    by (simp add: wf_array2d_def)
  have "\<exists>snrs. length snrs = length (rows ?E)
      \<and> (\<forall>draw < length (rows ?E). SignaltoNoiseRatio [1, 1] (rows ?E ! draw) = Inr (snrs ! draw))
      \<and> SignaltoNoiseRatioMC [1, 1] ?E
          = Inr (arith_mean snrs,
                 fmul (Fin (1.96 / sqrt (real (length (rows ?E))))) (population_std snrs))
      \<and> (\<forall>xs. snrs = map Fin xs \<longrightarrow>
            SignaltoNoiseRatioMC [1, 1] ?E
              = Inr (Fin (sum_list xs / real (length xs)),
                     Fin (1.96 / sqrt (real (length xs))
                          * sqrt ((\<Sum>x\<leftarrow>xs. (x - sum_list xs / real (length xs)) ^ 2)
                                  / real (length xs)))))"
    by (rule SignaltoNoiseRatioMC_mean_and_std [OF h]) simp_all
  then obtain snrs where a: "length snrs = length (rows ?E)"
    and b: "\<forall>draw < length (rows ?E).
              SignaltoNoiseRatio [1, 1] (rows ?E ! draw) = Inr (snrs ! draw)"
    and c: "SignaltoNoiseRatioMC [1, 1] ?E
          = Inr (arith_mean snrs,
                 fmul (Fin (1.96 / sqrt (real (length (rows ?E))))) (population_std snrs))"
    by blast
  have b0: "SignaltoNoiseRatio [1, 1] [2, 2] = Inr (snrs ! 0)"
    using b [rule_format, of 0] by simp
  have b1: "SignaltoNoiseRatio [1, 1] [3, 3] = Inr (snrs ! 1)"
    using b [rule_format, of 1] by simp
  have a': "length snrs = 2"
    using a by simp
  have c': "SignaltoNoiseRatioMC [1, 1] ?E
          = Inr (arith_mean snrs, fmul (Fin (1.96 / sqrt 2)) (population_std snrs))"
    using c by simp
  have "\<exists>snrs. length snrs = 2
           \<and> SignaltoNoiseRatio [1, 1] [2, 2] = Inr (snrs ! 0)
           \<and> SignaltoNoiseRatio [1, 1] [3, 3] = Inr (snrs ! 1)
           \<and> SignaltoNoiseRatioMC [1, 1] ?E
               = Inr (arith_mean snrs, fmul (Fin (1.96 / sqrt 2)) (population_std snrs))"
    using a' b0 b1 c' by blast
  then show ?thesis
    using h by simp
qed


section \<open>Monte-Carlo aggregation of perfect draws\<close>

lemma arr_sub_self_sum:
  "f 0 = 0 \<Longrightarrow> sum_list (map f (arr_sub xs xs)) = (0::real)"
  by (simp add: sum_list_arr_sub)

lemma arr_sub_self_tail_sum:
  "f 0 = 0 \<Longrightarrow> sum_list (map f (arr_sub (drop 1 xs) (drop 1 xs))) = (0::real)"
  by (simp add: sum_list_arr_sub)

lemma signal_power_pos_iff:
  "0 < sum_list (map (\<lambda>x. \<bar>x\<bar> ^ 2) xs) \<longleftrightarrow> (\<exists>x\<in>set xs. x \<noteq> (0::real))"
proof (induction xs)
  case Nil
  show ?case by simp
next
  case (Cons a xs)
  have nn: "0 \<le> sum_list (map (\<lambda>x. \<bar>x\<bar> ^ 2) xs)"
    by (intro sum_list_nonneg) auto
  have "0 < a\<^sup>2 + sum_list (map (\<lambda>x. \<bar>x\<bar> ^ 2) xs)
      \<longleftrightarrow> a \<noteq> 0 \<or> 0 < sum_list (map (\<lambda>x. \<bar>x\<bar> ^ 2) xs)"
  proof (cases "a = 0")
    case True
    then show ?thesis by simp
  next
    case False
    then have "0 < a\<^sup>2" by simp
    with nn False show ?thesis by linarith
  qed
  with Cons show ?case by auto
qed

lemma signal_power_zero:
  "\<not> (\<exists>x\<in>set xs. x \<noteq> (0::real)) \<Longrightarrow> sum_list (map (\<lambda>x. \<bar>x\<bar> ^ 2) xs) = 0"
  by (induction xs) simp_all

lemma SignaltoNoiseRatio_self:
  assumes "2 \<le> length groundTruth"
  shows "SignaltoNoiseRatio groundTruth groundTruth
       = Inr (if \<exists>x\<in>set groundTruth. x \<noteq> 0 then PInf else NaN)"
proof -
  have ne: "groundTruth \<noteq> []"
    using assms by auto
  have em: "fdiv (Fin 0) (Fin (real_of_int (int (length groundTruth) - 1))) = Fin 0"
    using assms by simp
  show ?thesis
  proof (cases "\<exists>x\<in>set groundTruth. x \<noteq> 0")
    case True
    then have "0 < sum_list (map (\<lambda>x. \<bar>x\<bar> ^ 2) groundTruth)"
      by (simp only: signal_power_pos_iff)
    then show ?thesis
      using True ne
      by (simp add: SignaltoNoiseRatio_def arr_sub_self_sum arr_sub_self_tail_sum em finf_def)
  next
    case False
    then have "sum_list (map (\<lambda>x. \<bar>x\<bar> ^ 2) groundTruth) = 0"
      by (rule signal_power_zero)
    then show ?thesis
      using False ne
      by (simp add: SignaltoNoiseRatio_def arr_sub_self_sum arr_sub_self_tail_sum em finf_def)
  qed
qed

lemma np_sum_replicate_PInf: "0 < n \<Longrightarrow> np_sum (replicate n PInf) = PInf"
proof -
  have "np_sum (replicate n PInf) = (if n = 0 then Fin 0 else PInf)"
    by (induction n) (simp_all add: np_sum_def del: foldr_replicate)
  then show "0 < n \<Longrightarrow> np_sum (replicate n PInf) = PInf"
    by simp
qed

lemma np_sum_replicate_NaN: "0 < n \<Longrightarrow> np_sum (replicate n NaN) = NaN"
  by (cases n) (simp_all add: np_sum_def del: foldr_replicate)

lemma np_std_replicate_PInf: "0 < n \<Longrightarrow> np_std (replicate n PInf) = NaN"
  by (simp add: np_std_def np_sum_replicate_PInf np_sum_replicate_NaN fsub_def)

lemma np_std_replicate_NaN: "0 < n \<Longrightarrow> np_std (replicate n NaN) = NaN"
  by (simp add: np_std_def np_sum_replicate_NaN fsub_def)

text \<open>
  C8, as the specification words it, fails: with every draw equal to the ground truth
  the squared error is 0, each per-draw SNR is \<open>+inf\<close>, and the standard deviation of
  infinite values is NaN (\<open>inf - inf\<close>), so \<open>errorSNR\<close> is NaN and not 0. Ground truth
  \<open>[1, 1]\<close> with two draws \<open>[1, 1]\<close> shows it.
\<close>

theorem SignaltoNoiseRatioMC_identical_draws_counterexample:
  "SignaltoNoiseRatio [1, 1] [1, 1] = Inr PInf
     \<and> SignaltoNoiseRatioMC [1, 1] \<lparr>ncols = 2, rows = [[1, 1], [1, 1]]\<rparr> = Inr (PInf, NaN)
     \<and> SignaltoNoiseRatioMC [1, 1] \<lparr>ncols = 2, rows = [[1, 1], [1, 1]]\<rparr> \<noteq> Inr (PInf, Fin 0)"
  by (simp add: SignaltoNoiseRatioMC_def SignaltoNoiseRatio_def arr_sub_def finf_def shape_def
      np_sum_def np_std_def fsub_def)

text \<open>
  C8, amended: for a ground truth of length \<open>N \<ge> 2\<close> and \<open>M \<ge> 1\<close> draws that all equal
  the ground truth, \<open>meanSNR\<close> is the single-draw SNR of the ground truth against
  itself, which is \<open>+inf\<close> when the ground truth has a non-zero entry and NaN when it
  is all zeros, and \<open>errorSNR\<close> is NaN.
\<close>

theorem SignaltoNoiseRatioMC_identical_draws:
  assumes "2 \<le> length groundTruth" and "1 \<le> M"
  shows "SignaltoNoiseRatio groundTruth groundTruth
           = Inr (if \<exists>x\<in>set groundTruth. x \<noteq> 0 then PInf else NaN)
       \<and> SignaltoNoiseRatioMC groundTruth
             \<lparr>ncols = length groundTruth, rows = replicate M groundTruth\<rparr>
           = Inr (if \<exists>x\<in>set groundTruth. x \<noteq> 0 then PInf else NaN, NaN)"
proof -
  let ?v = "if \<exists>x\<in>set groundTruth. x \<noteq> 0 then PInf else NaN"
  have self: "SignaltoNoiseRatio groundTruth groundTruth = Inr ?v"
    using assms(1) by (rule SignaltoNoiseRatio_self)
  have loop: "fill_range
        (\<lambda>draw. SignaltoNoiseRatio groundTruth (replicate M groundTruth ! draw)) [0..<M]
      = Inr (map (\<lambda>draw. ?v) [0..<M])"
    by (rule fill_range_Inr) (simp add: self)
  have rep: "map (\<lambda>draw. ?v) [0..<M] = replicate M ?v"
    by (simp add: map_replicate_const)
  have M: "0 < M" "M \<noteq> 0"
    using assms(2) by auto
  show ?thesis
    unfolding SignaltoNoiseRatioMC_def shape_def
    using M self
    by (simp add: loop rep np_sum_replicate_PInf np_sum_replicate_NaN
        np_std_replicate_PInf np_std_replicate_NaN finf_def)
qed

theorem SignaltoNoiseRatioMC_identical_draws_witness:
  "2 \<le> length [0, 3 :: real] \<and> (1::nat) \<le> 3
     \<and> SignaltoNoiseRatio [0, 3] [0, 3] = Inr PInf
     \<and> SignaltoNoiseRatioMC [0, 3] \<lparr>ncols = 2, rows = [[0, 3], [0, 3], [0, 3]]\<rparr>
         = Inr (PInf, NaN)"
  using SignaltoNoiseRatioMC_identical_draws [of "[0, 3]" 3]
  by (simp add: numeral_3_eq_3 numeral_2_eq_2)


section \<open>SNR per unit and its mean\<close>

lemma SNRByDep_indic_rows:
  assumes wfg: "wf_array2d groundTruth" and wfe: "wf_array2d estimation"
    and sh: "shape groundTruth = shape estimation"
    and days: "1 \<le> ncols estimation"
  shows "SNRByDep_indic groundTruth estimation
       = Inr (map (\<lambda>d. projr (SignaltoNoiseRatio (rows groundTruth ! d) (rows estimation ! d)))
                [0..<length (rows estimation)])"
    and "d < length (rows estimation) \<Longrightarrow>
         SignaltoNoiseRatio (rows groundTruth ! d) (rows estimation ! d)
           = Inr (projr (SignaltoNoiseRatio (rows groundTruth ! d) (rows estimation ! d)))"
proof -
  let ?f = "\<lambda>d. SignaltoNoiseRatio (rows groundTruth ! d) (rows estimation ! d)"
  have len: "length (rows groundTruth) = length (rows estimation)"
    and cols: "ncols groundTruth = ncols estimation"
    using sh by (simp_all add: shape_def)
  have row: "?f d = Inr (projr (?f d))" if "d < length (rows estimation)" for d
  proof -
    have "rows estimation ! d \<in> set (rows estimation)"
      and "rows groundTruth ! d \<in> set (rows groundTruth)"
      using that len by simp_all
    then have "length (rows estimation ! d) = ncols estimation"
      and "length (rows groundTruth ! d) = ncols estimation"
      using wfg wfe cols by (simp_all add: wf_array2d_def list_all_iff)
    then show ?thesis
      using days by (intro SignaltoNoiseRatio_returns) auto
  qed
  then show "d < length (rows estimation) \<Longrightarrow> ?f d = Inr (projr (?f d))" .
  have "fill_range ?f [0..<length (rows estimation)]
      = Inr (map (\<lambda>d. projr (?f d)) [0..<length (rows estimation)])"
    using row by (intro fill_range_Inr) simp
  then show "SNRByDep_indic groundTruth estimation
       = Inr (map (\<lambda>d. projr (?f d)) [0..<length (rows estimation)])"
    using sh by (simp add: SNRByDep_indic_def shape_def)
qed

text \<open>
  C5, as the specification words it, fails on arrays whose rows are empty: two arrays
  of shape \<open>(1, 0)\<close> have equal row counts and equal row lengths, but
  \<open>SignaltoNoiseRatio\<close> reads index 0 of the empty row and \<open>SNRByDep_indic\<close> ends with
  that \<open>IndexError\<close> instead of returning a sequence.
\<close>

theorem SNRByDep_indic_empty_rows_counterexample:
  "SNRByDep_indic \<lparr>ncols = 0, rows = [[]]\<rparr> \<lparr>ncols = 0, rows = [[]]\<rparr> = Inl IndexError"
  by (simp add: SNRByDep_indic_def shape_def SignaltoNoiseRatio_def)

text \<open>
  C5, amended: for two 2D arrays with equal row counts and equal row lengths of at
  least 1, \<open>SNRByDep_indic\<close> returns a sequence with exactly one value per row, and the
  value at row \<open>d\<close> is the one that \<open>SignaltoNoiseRatio\<close> returns on row \<open>d\<close> of the
  ground truth and row \<open>d\<close> of the estimation.
\<close>

theorem SNRByDep_indic_row_wise:
  assumes "wf_array2d groundTruth" and "wf_array2d estimation"
    and "shape groundTruth = shape estimation"
    and "1 \<le> ncols estimation"
  shows "\<exists>vs. SNRByDep_indic groundTruth estimation = Inr vs
      \<and> length vs = length (rows estimation)
      \<and> (\<forall>d < length (rows estimation).
            SignaltoNoiseRatio (rows groundTruth ! d) (rows estimation ! d) = Inr (vs ! d))"
proof (intro exI conjI allI impI)
  show "SNRByDep_indic groundTruth estimation
       = Inr (map (\<lambda>d. projr (SignaltoNoiseRatio (rows groundTruth ! d) (rows estimation ! d)))
                [0..<length (rows estimation)])"
    using assms by (rule SNRByDep_indic_rows(1))
  show "length (map (\<lambda>d. projr (SignaltoNoiseRatio (rows groundTruth ! d) (rows estimation ! d)))
                [0..<length (rows estimation)]) = length (rows estimation)"
    by simp
  show "SignaltoNoiseRatio (rows groundTruth ! d) (rows estimation ! d)
      = Inr (map (\<lambda>d. projr (SignaltoNoiseRatio (rows groundTruth ! d) (rows estimation ! d)))
                [0..<length (rows estimation)] ! d)"
    if "d < length (rows estimation)" for d
    using SNRByDep_indic_rows(2) [OF assms that] that by simp
qed

theorem SNRByDep_indic_row_wise_witness:
  "wf_array2d \<lparr>ncols = 3, rows = [[1, 2, 3], [4, 5, 6]]\<rparr>
     \<and> wf_array2d \<lparr>ncols = 3, rows = [[1, 2, 3], [4, 5, 5]]\<rparr>
     \<and> shape \<lparr>ncols = 3, rows = [[1, 2, 3], [4, 5, 6]]\<rparr>
         = shape \<lparr>ncols = 3, rows = [[1, 2, 3], [4, 5, 5]]\<rparr>
     \<and> 1 \<le> ncols \<lparr>ncols = 3, rows = [[1, 2, 3], [4, 5, 5]]\<rparr>
     \<and> (\<exists>vs. SNRByDep_indic \<lparr>ncols = 3, rows = [[1, 2, 3], [4, 5, 6]]\<rparr>
                 \<lparr>ncols = 3, rows = [[1, 2, 3], [4, 5, 5]]\<rparr> = Inr vs
           \<and> length vs = 2
           \<and> SignaltoNoiseRatio [1, 2, 3] [1, 2, 3] = Inr (vs ! 0)
           \<and> SignaltoNoiseRatio [4, 5, 6] [4, 5, 5] = Inr (vs ! 1))"
proof -
  let ?G = "\<lparr>ncols = 3, rows = [[1, 2, 3], [4, 5, 6 :: real]]\<rparr>"
  let ?E = "\<lparr>ncols = 3, rows = [[1, 2, 3], [4, 5, 5 :: real]]\<rparr>"
  have g: "wf_array2d ?G" and e: "wf_array2d ?E"
    by (simp_all add: wf_array2d_def)
  have s: "shape ?G = shape ?E"
    by (simp add: shape_def)
  have "\<exists>vs. SNRByDep_indic ?G ?E = Inr vs
      \<and> length vs = length (rows ?E)
      \<and> (\<forall>d < length (rows ?E).
            SignaltoNoiseRatio (rows ?G ! d) (rows ?E ! d) = Inr (vs ! d))"
    by (rule SNRByDep_indic_row_wise [OF g e s]) simp
  then obtain vs where a: "SNRByDep_indic ?G ?E = Inr vs"
    and b: "length vs = length (rows ?E)"
    and c: "\<forall>d < length (rows ?E).
            SignaltoNoiseRatio (rows ?G ! d) (rows ?E ! d) = Inr (vs ! d)"
    by blast
  have c0: "SignaltoNoiseRatio [1, 2, 3] [1, 2, 3] = Inr (vs ! 0)"
    using c [rule_format, of 0] by simp
  have c1: "SignaltoNoiseRatio [4, 5, 6] [4, 5, 5] = Inr (vs ! 1)"
    using c [rule_format, of 1] by simp
  have b': "length vs = 2"
    using b by simp
  have "\<exists>vs. SNRByDep_indic ?G ?E = Inr vs \<and> length vs = 2
           \<and> SignaltoNoiseRatio [1, 2, 3] [1, 2, 3] = Inr (vs ! 0)
           \<and> SignaltoNoiseRatio [4, 5, 6] [4, 5, 5] = Inr (vs ! 1)"
    using a b' c0 c1 by blast
  then show ?thesis
    using g e s by simp
qed

text \<open>
  C6, as the specification words it, fails on degenerate shapes: with no row at all the
  Python division \<open>1 / nbDeps\<close> raises \<open>ZeroDivisionError\<close>, and with empty rows the
  \<open>IndexError\<close> of \<open>SignaltoNoiseRatio\<close> comes through \<open>SNRByDep_indic\<close>.
\<close>

theorem SNRMean_indic_degenerate_counterexample:
  "SNRMean_indic \<lparr>ncols = 3, rows = []\<rparr> \<lparr>ncols = 3, rows = []\<rparr> = Inl ZeroDivisionError
     \<and> SNRMean_indic \<lparr>ncols = 0, rows = [[]]\<rparr> \<lparr>ncols = 0, rows = [[]]\<rparr> = Inl IndexError"
  by (simp add: SNRMean_indic_def SNRByDep_indic_def shape_def SignaltoNoiseRatio_def)

text \<open>
  C6, amended: for two 2D arrays with equal row counts \<open>nbUnits \<ge> 1\<close> and equal row
  lengths of at least 1, \<open>SNRMean_indic\<close> returns \<open>1 / nbUnits\<close> times the sum of the
  per-unit values that \<open>SNRByDep_indic\<close> returns on the same inputs; when these are all
  finite, that is the real number \<open>(1 / nbUnits) * sum\<close>.
\<close>

theorem SNRMean_indic_mean:
  assumes "wf_array2d groundTruth" and "wf_array2d estimation"
    and "shape groundTruth = shape estimation"
    and "1 \<le> ncols estimation"
    and "1 \<le> length (rows estimation)"
  shows "\<exists>vs. SNRByDep_indic groundTruth estimation = Inr vs
      \<and> length vs = length (rows estimation)
      \<and> SNRMean_indic groundTruth estimation
          = Inr (fmul (Fin (1 / real (length (rows estimation)))) (np_sum vs))
      \<and> (\<forall>xs. vs = map Fin xs \<longrightarrow>
            SNRMean_indic groundTruth estimation
              = Inr (Fin (1 / real (length (rows estimation)) * sum_list xs)))"
proof -
  let ?vs = "map (\<lambda>d. projr (SignaltoNoiseRatio (rows groundTruth ! d) (rows estimation ! d)))
                [0..<length (rows estimation)]"
  have by_dep: "SNRByDep_indic groundTruth estimation = Inr ?vs"
    using assms(1-4) by (rule SNRByDep_indic_rows(1))
  have n: "length (rows estimation) \<noteq> 0"
    using assms(5) by auto
  have mean: "SNRMean_indic groundTruth estimation
          = Inr (fmul (Fin (1 / real (length (rows estimation)))) (np_sum ?vs))"
    unfolding SNRMean_indic_def shape_def by_dep
    using assms(3) n by (simp add: shape_def)
  have fin: "SNRMean_indic groundTruth estimation
              = Inr (Fin (1 / real (length (rows estimation)) * sum_list xs))"
    if "?vs = map Fin xs" for xs
    unfolding mean that by (simp add: np_sum_Fin)
  show ?thesis
    using by_dep mean fin
    by (intro exI [of _ ?vs]) simp
qed

theorem SNRMean_indic_mean_witness:
  "wf_array2d \<lparr>ncols = 3, rows = [[1, 2, 3], [4, 5, 6]]\<rparr>
     \<and> wf_array2d \<lparr>ncols = 3, rows = [[1, 2, 4], [4, 5, 5]]\<rparr>
     \<and> shape \<lparr>ncols = 3, rows = [[1, 2, 3], [4, 5, 6]]\<rparr>
         = shape \<lparr>ncols = 3, rows = [[1, 2, 4], [4, 5, 5]]\<rparr>
     \<and> 1 \<le> ncols \<lparr>ncols = 3, rows = [[1, 2, 4], [4, 5, 5]]\<rparr>
     \<and> 1 \<le> length (rows \<lparr>ncols = 3, rows = [[1, 2, 4], [4, 5, 5]]\<rparr>)
     \<and> (\<exists>vs. SNRByDep_indic \<lparr>ncols = 3, rows = [[1, 2, 3], [4, 5, 6]]\<rparr>
                 \<lparr>ncols = 3, rows = [[1, 2, 4], [4, 5, 5]]\<rparr> = Inr vs
           \<and> length vs = 2
           \<and> SNRMean_indic \<lparr>ncols = 3, rows = [[1, 2, 3], [4, 5, 6]]\<rparr>
                 \<lparr>ncols = 3, rows = [[1, 2, 4], [4, 5, 5]]\<rparr>
               = Inr (fmul (Fin (1 / 2)) (np_sum vs)))"
proof -
  let ?G = "\<lparr>ncols = 3, rows = [[1, 2, 3], [4, 5, 6 :: real]]\<rparr>"
  let ?E = "\<lparr>ncols = 3, rows = [[1, 2, 4], [4, 5, 5 :: real]]\<rparr>"
  have g: "wf_array2d ?G" and e: "wf_array2d ?E"
    by (simp_all add: wf_array2d_def)
  have s: "shape ?G = shape ?E"
    by (simp add: shape_def)
  have "\<exists>vs. SNRByDep_indic ?G ?E = Inr vs
      \<and> length vs = length (rows ?E)
      \<and> SNRMean_indic ?G ?E = Inr (fmul (Fin (1 / real (length (rows ?E)))) (np_sum vs))
      \<and> (\<forall>xs. vs = map Fin xs \<longrightarrow>
            SNRMean_indic ?G ?E = Inr (Fin (1 / real (length (rows ?E)) * sum_list xs)))"
    by (rule SNRMean_indic_mean [OF g e s]) simp_all
  then obtain vs where a: "SNRByDep_indic ?G ?E = Inr vs"
    and b: "length vs = length (rows ?E)"
    and c: "SNRMean_indic ?G ?E = Inr (fmul (Fin (1 / real (length (rows ?E)))) (np_sum vs))"
    by blast
  have b': "length vs = 2"
    using b by simp
  have c': "SNRMean_indic ?G ?E = Inr (fmul (Fin (1 / 2)) (np_sum vs))"
    using c by simp
  have "\<exists>vs. SNRByDep_indic ?G ?E = Inr vs \<and> length vs = 2
           \<and> SNRMean_indic ?G ?E = Inr (fmul (Fin (1 / 2)) (np_sum vs))"
    using a b' c' by blast
  then show ?thesis
    using g e s by simp
qed


section \<open>The upper bound of the y axis\<close>





section \<open>Ticks of the date axis\<close>





lemma np_round_tie: "np_round (350 / 140) = 2"
  by (simp add: np_round_def)






end
